theory Spec2Isabelle
  imports Main
begin

section \<open>The persistence model (polls/models.py)\<close>

text \<open>
  Every model class is a record; a table is the list of its rows in insertion order.
  Primary keys are natural numbers, handed out in increasing order as the store does for
  an auto field. A \<open>DateTimeField\<close> holds a point in time with microsecond resolution:
  it is modelled by the number of microseconds since the epoch (1970-01-01 00:00:00 UTC).
  Python's datetimes range from year 1 to the last microsecond of year 9999. Image fields
  are opaque references. A text is a list of characters, each standing for a code point
  below 256.
\<close>

type_synonym datetime = int

record UserProfile =
  profile_id :: nat
  profile_user :: nat
  name :: string
  avatar :: "string option"

record Question =
  question_id :: nat
  question_text :: string
  pub_date :: datetime
  image_ref :: "string option"
  lifespan_days :: nat

record Choice =
  choice_id :: nat
  choice_question :: nat
  choice_text :: string
  votes :: int

record Vote =
  vote_id :: nat
  vote_user :: nat
  vote_question :: nat
  vote_choice :: nat

record db =
  users :: "nat list"
  profiles :: "UserProfile list"
  questions :: "Question list"
  choices :: "Choice list"
  vote_rows :: "Vote list"

text \<open>
  The key of the next inserted row: one more than every key in the table. (The store
  never hands out the key of a deleted row again; here the key of a deleted last row
  would be. No statement below depends on the value of a key, only on its being new.)
\<close>

definition next_id :: "nat list \<Rightarrow> nat" where
  "next_id ids = Suc (fold max ids 0)"

subsection \<open>Exceptions\<close>

text \<open>An exception is a value: a function that can raise returns a sum.\<close>

datatype exn =
  IntegrityError | DatabaseError | ValueError | KeyError | DoesNotExist
  | MultipleObjectsReturned | ZeroDivisionError | OverflowError

subsection \<open>Question.is_active\<close>

text \<open>
  The first and the last datetime, 0001-01-01 00:00:00 and 9999-12-31 23:59:59.999999, as
  microseconds since the epoch: the epoch is day 719162 after the first day, and the last
  day is day 2932896 after the epoch.
\<close>

definition datetime_min :: datetime where
  "datetime_min = - 719162 * 86400000000"

definition datetime_max :: datetime where
  "datetime_max = 2932897 * 86400000000 - 1"

text \<open>
  \<open>datetime.timedelta(days=n)\<close>, in microseconds. The constructor raises
  \<open>OverflowError\<close> for more than 999999999 days.
\<close>

definition timedelta_days :: "nat \<Rightarrow> int" where
  "timedelta_days n = int n * 24 * 60 * 60 * 1000000"

definition timedelta_seconds :: "nat \<Rightarrow> int" where
  "timedelta_seconds n = int n * 1000000"

definition timedelta :: "nat \<Rightarrow> exn + int" where
  "timedelta days = (if 999999999 < days then Inl OverflowError else Inr (timedelta_days days))"

text \<open>Adding a timedelta to a datetime raises when the sum is no datetime.\<close>

definition datetime_add :: "datetime \<Rightarrow> int \<Rightarrow> exn + datetime" where
  "datetime_add d delta =
     (if datetime_min \<le> d + delta \<and> d + delta \<le> datetime_max then Inr (d + delta)
      else Inl OverflowError)"

text \<open>
  \<open>is_active\<close> reads the clock (\<open>timezone.now()\<close>); the reading is the argument
  \<open>now\<close>.
\<close>

definition is_active :: "Question \<Rightarrow> datetime \<Rightarrow> exn + bool" where
  "is_active q now =
     (case timedelta (lifespan_days q) of
        Inl e \<Rightarrow> Inl e
      | Inr delta \<Rightarrow>
          (case datetime_add (pub_date q) delta of
             Inl e \<Rightarrow> Inl e
           | Inr expiry \<Rightarrow> Inr (now \<le> expiry)))"

section \<open>Requests, responses and exceptions\<close>

text \<open>
  A view returns its response together with the store it leaves behind; an exception no
  handler of the view catches is the response \<open>Unhandled\<close>. The texts of the flash
  messages are constructors named after what they say.
\<close>

datatype level = Level_error | Level_success | Level_warning

datatype msg = Voting_finished | Vote_counted | Already_voted | Profile_deleted
  | Question_created string

datatype page = Index_page | Login_page | Results_page nat

datatype http_method = GET | POST

datatype response =
  Http404
  | Redirect page "(level \<times> msg) option"
  | Render_detail_error Question bool
  | Render_detail Question bool
  | Render_index "Question list"
  | Render_profile_delete
  | Render_question_create
  | Unhandled exn

text \<open>
  The value of \<open>request.POST['choice']\<close>: the key may be missing, and a value that is
  present is text, which the lookup by primary key converts to an integer or rejects.
\<close>

datatype post_value = Absent | NotNumber | Number int

section \<open>The listing query (IndexView.get_queryset)\<close>

text \<open>
  The filter runs in the data store, on text. \<open>datetime(pub_date, '+N days')\<close> reads
  the stored timestamp to the nearest millisecond, adds the days and prints whole seconds
  as \<open>YYYY-MM-DD HH:MM:SS\<close>; \<open>now\<close> is bound as text with six fractional digits.
  Fixed-width timestamps compare as text the way the times compare, so such a text is
  modelled by its count of whole seconds and its fractional digits, if it has any. A
  text that is a proper prefix of another is the smaller one. For a time after the last
  millisecond of the year 9999 the function gives NULL (here \<open>None\<close>), and a
  comparison with NULL selects no row.
\<close>

type_synonym sqltext = "int \<times> nat option"

definition sqlite_datetime_plus_days :: "datetime \<Rightarrow> nat \<Rightarrow> sqltext option" where
  "sqlite_datetime_plus_days d n =
     (let ms = (d + 500) div 1000 + int n * 86400000
      in if 2932897 * 86400000 - 1 < ms then None else Some (ms div 1000, None))"

definition strftime_f :: "datetime \<Rightarrow> sqltext" where
  "strftime_f d = (d div 1000000, Some (nat (d mod 1000000)))"

definition text_gt :: "sqltext \<Rightarrow> sqltext \<Rightarrow> bool" where
  "text_gt a b =
     (fst b < fst a \<or>
      (fst a = fst b \<and>
       (case snd a of
          None \<Rightarrow> False
        | Some x \<Rightarrow> (case snd b of None \<Rightarrow> True | Some y \<Rightarrow> y < x))))"

definition extra_where_active :: "datetime \<Rightarrow> Question \<Rightarrow> bool" where
  "extra_where_active now q =
     (case sqlite_datetime_plus_days (pub_date q) (lifespan_days q) of
        None \<Rightarrow> False
      | Some expiry \<Rightarrow> text_gt expiry (strftime_f now))"

definition IndexView_get_queryset :: "datetime \<Rightarrow> db \<Rightarrow> Question list" where
  "IndexView_get_queryset now s =
     sort_key (\<lambda>q. - pub_date q) (filter (extra_where_active now) (questions s))"

section \<open>The detail and results pages\<close>

definition get_question :: "db \<Rightarrow> nat \<Rightarrow> Question option" where
  "get_question s pk = find (\<lambda>q. question_id q = pk) (questions s)"

definition has_voted :: "db \<Rightarrow> nat option \<Rightarrow> Question \<Rightarrow> bool" where
  "has_voted s ruser q =
     (case ruser of
        None \<Rightarrow> False
      | Some u \<Rightarrow>
          list_ex (\<lambda>v. vote_user v = u \<and> vote_question v = question_id q) (vote_rows s))"

definition DetailView_get :: "db \<Rightarrow> nat option \<Rightarrow> nat \<Rightarrow> response \<times> db" where
  "DetailView_get s ruser pk =
     (case get_question s pk of
        None \<Rightarrow> (Http404, s)
      | Some q \<Rightarrow> (Render_detail q (has_voted s ruser q), s))"

definition choice_set_all :: "db \<Rightarrow> Question \<Rightarrow> Choice list" where
  "choice_set_all s q = filter (\<lambda>c. choice_question c = question_id q) (choices s)"

text \<open>
  The percentages are Python floats. Their three operations (true division of integers,
  multiplication by an integer, rounding to a number of decimals) are parameters of the
  model; what the model fixes is which of them the view applies, to what, and when. True
  division raises on a zero divisor.
\<close>

record 'f float_ops =
  truediv :: "int \<Rightarrow> int \<Rightarrow> 'f"
  fmul :: "'f \<Rightarrow> int \<Rightarrow> 'f"
  round_ndigits :: "'f \<Rightarrow> int \<Rightarrow> 'f"

datatype 'f percent = Int_percent int | Float_percent 'f

definition py_truediv :: "'f float_ops \<Rightarrow> int \<Rightarrow> int \<Rightarrow> exn + 'f" where
  "py_truediv ops a b = (if b = 0 then Inl ZeroDivisionError else Inr (truediv ops a b))"

definition percent_of :: "'f float_ops \<Rightarrow> int \<Rightarrow> Choice \<Rightarrow> exn + 'f percent" where
  "percent_of ops total_votes choice =
     (if 0 < total_votes then
        (case py_truediv ops (votes choice) total_votes of
           Inl e \<Rightarrow> Inl e
         | Inr d \<Rightarrow> Inr (Float_percent (round_ndigits ops (fmul ops d 100) 1)))
      else Inr (Int_percent 0))"

fun results_loop ::
  "'f float_ops \<Rightarrow> int \<Rightarrow> Choice list \<Rightarrow> (Choice \<times> 'f percent) list
     \<Rightarrow> exn + (Choice \<times> 'f percent) list" where
  "results_loop ops total_votes [] results = Inr results"
| "results_loop ops total_votes (choice # rest) results =
     (case percent_of ops total_votes choice of
        Inl e \<Rightarrow> Inl e
      | Inr percent \<Rightarrow> results_loop ops total_votes rest (results @ [(choice, percent)]))"

definition get_context_data ::
  "'f float_ops \<Rightarrow> db \<Rightarrow> Question \<Rightarrow> exn + (Choice \<times> 'f percent) list" where
  "get_context_data ops s q =
     (let total_votes = sum_list (map votes (choice_set_all s q))
      in results_loop ops total_votes (choice_set_all s q) [])"

datatype 'f results_response =
  Results_404 | Results_unhandled exn | Render_results Question "(Choice \<times> 'f percent) list"

definition ResultsView_get ::
  "'f float_ops \<Rightarrow> db \<Rightarrow> nat \<Rightarrow> 'f results_response \<times> db" where
  "ResultsView_get ops s pk =
     (case get_question s pk of
        None \<Rightarrow> (Results_404, s)
      | Some q \<Rightarrow>
          (case get_context_data ops s q of
             Inl e \<Rightarrow> (Results_unhandled e, s)
           | Inr results \<Rightarrow> (Render_results q results, s)))"

section \<open>Casting a vote (views.vote)\<close>

text \<open>
  \<open>question.choice_set.get(pk=request.POST['choice'])\<close>: the choices of the question
  with this key. No row is \<open>DoesNotExist\<close>, and more than one row would be
  \<open>MultipleObjectsReturned\<close>.
\<close>

definition choice_set_get :: "db \<Rightarrow> Question \<Rightarrow> post_value \<Rightarrow> exn + Choice" where
  "choice_set_get s q pv =
     (case pv of
        Absent \<Rightarrow> Inl KeyError
      | NotNumber \<Rightarrow> Inl ValueError
      | Number k \<Rightarrow>
          (case filter (\<lambda>c. int (choice_id c) = k) (choice_set_all s q) of
             [] \<Rightarrow> Inl DoesNotExist
           | [c] \<Rightarrow> Inr c
           | _ \<Rightarrow> Inl MultipleObjectsReturned))"

text \<open>
  \<open>Vote.objects.create\<close> inserts one row. The table carries the constraint
  \<open>unique_together = ('user', 'question')\<close>: the store refuses a second row for the
  pair with \<open>IntegrityError\<close> and stays as it was.
\<close>

definition Vote_objects_create :: "db \<Rightarrow> nat \<Rightarrow> nat \<Rightarrow> nat \<Rightarrow> exn + db" where
  "Vote_objects_create s u q c =
     (if list_ex (\<lambda>v. vote_user v = u \<and> vote_question v = q) (vote_rows s)
      then Inl IntegrityError
      else Inr (s\<lparr>vote_rows := vote_rows s @
             [\<lparr>vote_id = next_id (map vote_id (vote_rows s)),
               vote_user = u, vote_question = q, vote_choice = c\<rparr>]\<rparr>))"

text \<open>
  \<open>selected_choice.save()\<close> writes the fields of the instance to the row with its key
  (and inserts the row when the table has none with this key). The write can fail: the
  argument \<open>fault\<close> is the exception the store raises for it, if any; a write that
  raises changes nothing.
\<close>

definition Choice_save :: "exn option \<Rightarrow> db \<Rightarrow> Choice \<Rightarrow> exn + db" where
  "Choice_save fault s c =
     (case fault of
        Some e \<Rightarrow> Inl e
      | None \<Rightarrow>
          Inr (s\<lparr>choices :=
            (if list_ex (\<lambda>x. choice_id x = choice_id c) (choices s)
             then map (\<lambda>x. if choice_id x = choice_id c then c else x) (choices s)
             else choices s @ [c])\<rparr>))"

text \<open>
  The view opens no transaction, so each write is committed when it returns (the
  framework's autocommit). The \<open>try\<close> block holds both writes, and its handler catches
  \<open>IntegrityError\<close> from either.
\<close>

definition vote ::
  "datetime \<Rightarrow> exn option \<Rightarrow> db \<Rightarrow> nat option \<Rightarrow> nat \<Rightarrow> post_value \<Rightarrow> response \<times> db" where
  "vote now fault s ruser qid pv =
     (case get_question s qid of
        None \<Rightarrow> (Http404, s)
      | Some question \<Rightarrow>
          (case is_active question now of
             Inl e \<Rightarrow> (Unhandled e, s)
           | Inr active \<Rightarrow>
              if \<not> active
              then (Redirect Index_page (Some (Level_error, Voting_finished)), s)
              else
                (case ruser of
                   None \<Rightarrow> (Redirect Login_page None, s)
                 | Some u \<Rightarrow>
                     (case choice_set_get s question pv of
                        Inl e \<Rightarrow>
                          if e = KeyError \<or> e = DoesNotExist
                          then (Render_detail_error question (has_voted s ruser question), s)
                          else (Unhandled e, s)
                      | Inr selected_choice \<Rightarrow>
                          (case Vote_objects_create s u (question_id question)
                                  (choice_id selected_choice) of
                             Inl e \<Rightarrow>
                               if e = IntegrityError
                               then (Redirect (Results_page (question_id question))
                                       (Some (Level_warning, Already_voted)), s)
                               else (Unhandled e, s)
                           | Inr s1 \<Rightarrow>
                               (case Choice_save fault s1
                                       (selected_choice\<lparr>votes := votes selected_choice + 1\<rparr>) of
                                  Inl e \<Rightarrow>
                                    if e = IntegrityError
                                    then (Redirect (Results_page (question_id question))
                                            (Some (Level_warning, Already_voted)), s1)
                                    else (Unhandled e, s1)
                                | Inr s2 \<Rightarrow>
                                    (Redirect (Results_page (question_id question))
                                       (Some (Level_success, Vote_counted)), s2)))))))"

text \<open>One call of the view, and a sequence of calls run one after the other.\<close>

record vote_call =
  call_now :: datetime
  call_fault :: "exn option"
  call_user :: "nat option"
  call_question :: nat
  call_choice :: post_value

definition vote_step :: "vote_call \<Rightarrow> db \<Rightarrow> db" where
  "vote_step c s =
     snd (vote (call_now c) (call_fault c) s (call_user c) (call_question c) (call_choice c))"

definition run_votes :: "vote_call list \<Rightarrow> db \<Rightarrow> db" where
  "run_votes calls s = fold vote_step calls s"

definition votes_of_pair :: "db \<Rightarrow> nat \<Rightarrow> nat \<Rightarrow> Vote list" where
  "votes_of_pair s u q = filter (\<lambda>v. vote_user v = u \<and> vote_question v = q) (vote_rows s)"

definition unique_together :: "db \<Rightarrow> bool" where
  "unique_together s = distinct (map (\<lambda>v. (vote_user v, vote_question v)) (vote_rows s))"

definition unique_choice_ids :: "db \<Rightarrow> bool" where
  "unique_choice_ids s = distinct (map choice_id (choices s))"

definition unique_question_ids :: "db \<Rightarrow> bool" where
  "unique_question_ids s = distinct (map question_id (questions s))"

section \<open>Creating a question (QuestionCreateForm, views.question_create)\<close>

text \<open>
  The three choice fields are \<open>CharField(max_length=200, required=False)\<close>. A
  character field strips the whitespace around its input (\<open>str.strip\<close>); what is
  left may be empty when the field is not required, may not hold a null character and
  may not be longer than \<open>max_length\<close>. The whitespace characters among the code
  points below 256 are 9 to 13, 28 to 32, 133 and 160.
\<close>

definition isspace :: "char \<Rightarrow> bool" where
  "isspace c =
     (let n = (of_char c :: nat)
      in (9 \<le> n \<and> n \<le> 13) \<or> (28 \<le> n \<and> n \<le> 32) \<or> n = 133 \<or> n = 160)"

definition strip :: "string \<Rightarrow> string" where
  "strip t = rev (dropWhile isspace (rev (dropWhile isspace t)))"

datatype validation_error = Required | Max_length | Invalid

definition CharField_clean :: "nat \<Rightarrow> bool \<Rightarrow> string \<Rightarrow> validation_error + string" where
  "CharField_clean max_length required raw =
     (let v = strip raw
      in if v = [] then (if required then Inl Required else Inr [])
         else if max_length < length v then Inl Max_length
         else if CHR 0x00 \<in> set v then Inl Invalid
         else Inr v)"

text \<open>
  The posted form. The image and the lifespan are validated by the framework's image and
  integer fields: the model takes their cleaned values, \<open>None\<close> for a lifespan standing
  for an input the integer field rejects.
\<close>

record question_post =
  post_question_text :: string
  post_image :: "string option"
  post_lifespan_days :: "nat option"
  post_choice1 :: string
  post_choice2 :: string
  post_choice3 :: string

record cleaned_data =
  cleaned_question_text :: string
  cleaned_image :: "string option"
  cleaned_lifespan_days :: nat
  choice1 :: string
  choice2 :: string
  choice3 :: string

definition QuestionCreateForm_clean :: "question_post \<Rightarrow> cleaned_data option" where
  "QuestionCreateForm_clean p =
     (case (CharField_clean 200 True (post_question_text p), post_lifespan_days p,
            CharField_clean 200 False (post_choice1 p),
            CharField_clean 200 False (post_choice2 p),
            CharField_clean 200 False (post_choice3 p)) of
        (Inr t, Some n, Inr c1, Inr c2, Inr c3) \<Rightarrow>
          Some \<lparr>cleaned_question_text = t, cleaned_image = post_image p,
                cleaned_lifespan_days = n, choice1 = c1, choice2 = c2, choice3 = c3\<rparr>
      | _ \<Rightarrow> None)"

text \<open>
  \<open>Choice.objects.create(question=question, choice_text=choice_text)\<close>; the new row
  starts with no votes. A question that was not saved has no key, and a row that refers
  to it cannot be saved.
\<close>

definition Choice_objects_create :: "db \<Rightarrow> nat option \<Rightarrow> string \<Rightarrow> exn + db" where
  "Choice_objects_create s question_pk t =
     (case question_pk of
        None \<Rightarrow> Inl ValueError
      | Some q \<Rightarrow>
          Inr (s\<lparr>choices := choices s @
            [\<lparr>choice_id = next_id (map choice_id (choices s)), choice_question = q,
              choice_text = t, votes = 0\<rparr>]\<rparr>))"

text \<open>The loop \<open>for i in range(1, 4)\<close> over the cleaned texts of the three fields.\<close>

fun create_choices :: "db \<Rightarrow> nat option \<Rightarrow> string list \<Rightarrow> exn + db" where
  "create_choices s question_pk [] = Inr s"
| "create_choices s question_pk (t # rest) =
     (if t \<noteq> [] then
        (case Choice_objects_create s question_pk t of
           Inl e \<Rightarrow> Inl e
         | Inr s' \<Rightarrow> create_choices s' question_pk rest)
      else create_choices s question_pk rest)"

text \<open>
  \<open>save\<close> returns the question (here: its key, \<open>None\<close> when it was not saved) and
  the store. \<open>pub_date\<close> is set by \<open>auto_now_add\<close> to the time of the insert.
\<close>

definition Question_save :: "datetime \<Rightarrow> db \<Rightarrow> cleaned_data \<Rightarrow> nat \<times> db" where
  "Question_save now s cd =
     (let pk = next_id (map question_id (questions s))
      in (pk, s\<lparr>questions := questions s @
            [\<lparr>question_id = pk, question_text = cleaned_question_text cd, pub_date = now,
              image_ref = cleaned_image cd, lifespan_days = cleaned_lifespan_days cd\<rparr>]\<rparr>))"

definition QuestionCreateForm_save ::
  "datetime \<Rightarrow> bool \<Rightarrow> db \<Rightarrow> cleaned_data \<Rightarrow> exn + (nat option \<times> db)" where
  "QuestionCreateForm_save now commit s cd =
     (let (question_pk, s1) =
            (if commit then (case Question_save now s cd of (pk, s') \<Rightarrow> (Some pk, s'))
             else (None, s))
      in case create_choices s1 question_pk [choice1 cd, choice2 cd, choice3 cd] of
           Inl e \<Rightarrow> Inl e
         | Inr s2 \<Rightarrow> Inr (question_pk, s2))"

definition question_create ::
  "datetime \<Rightarrow> db \<Rightarrow> nat option \<Rightarrow> http_method \<Rightarrow> question_post \<Rightarrow> response \<times> db" where
  "question_create now s ruser method p =
     (case ruser of
        None \<Rightarrow> (Redirect Login_page None, s)
      | Some u \<Rightarrow>
          if method = POST then
            (case QuestionCreateForm_clean p of
               None \<Rightarrow> (Render_question_create, s)
             | Some cd \<Rightarrow>
                 (case QuestionCreateForm_save now True s cd of
                    Inl e \<Rightarrow> (Unhandled e, s)
                  | Inr (question_pk, s') \<Rightarrow>
                      (Redirect Index_page
                         (Some (Level_success, Question_created (cleaned_question_text cd))),
                       s')))
          else (Render_question_create, s))"

text \<open>The texts of the choices of a question, in table order.\<close>

definition choice_texts_of :: "db \<Rightarrow> nat \<Rightarrow> string list" where
  "choice_texts_of s q = map choice_text (filter (\<lambda>c. choice_question c = q) (choices s))"

section \<open>Deleting a profile and its account (views.profile_delete)\<close>

text \<open>
  \<open>user.profile\<close> is the profile row of the user; without one the access raises
  \<open>DoesNotExist\<close>. Deleting the user cascades to the rows that refer to it: its profile
  and its votes. The view requires a login, and ends the session after the delete
  (\<open>logout\<close>); the session is not part of the store.
\<close>

definition user_profile :: "db \<Rightarrow> nat \<Rightarrow> exn + UserProfile" where
  "user_profile s u =
     (case filter (\<lambda>p. profile_user p = u) (profiles s) of
        [] \<Rightarrow> Inl DoesNotExist
      | [p] \<Rightarrow> Inr p
      | _ \<Rightarrow> Inl MultipleObjectsReturned)"

definition UserProfile_delete :: "db \<Rightarrow> UserProfile \<Rightarrow> db" where
  "UserProfile_delete s p =
     s\<lparr>profiles := filter (\<lambda>x. profile_id x \<noteq> profile_id p) (profiles s)\<rparr>"

definition User_delete :: "db \<Rightarrow> nat \<Rightarrow> db" where
  "User_delete s u =
     s\<lparr>users := removeAll u (users s),
       profiles := filter (\<lambda>p. profile_user p \<noteq> u) (profiles s),
       vote_rows := filter (\<lambda>v. vote_user v \<noteq> u) (vote_rows s)\<rparr>"

text \<open>The store after the first step of the view: the profile of the user, if any, is gone.\<close>

definition profile_deleted_first :: "db \<Rightarrow> nat \<Rightarrow> db" where
  "profile_deleted_first s u =
     (case user_profile s u of Inr p \<Rightarrow> UserProfile_delete s p | Inl e \<Rightarrow> s)"

definition profile_delete :: "db \<Rightarrow> nat option \<Rightarrow> http_method \<Rightarrow> response \<times> db" where
  "profile_delete s ruser method =
     (case ruser of
        None \<Rightarrow> (Redirect Login_page None, s)
      | Some user \<Rightarrow>
          if method = POST then
            (case user_profile s user of
               Inl e \<Rightarrow>
                 if e = DoesNotExist
                 then (Redirect Index_page (Some (Level_success, Profile_deleted)),
                       User_delete s user)
                 else (Unhandled e, s)
             | Inr p \<Rightarrow>
                 (Redirect Index_page (Some (Level_success, Profile_deleted)),
                  User_delete (UserProfile_delete s p) user))
          else (Render_profile_delete, s))"

section \<open>Example data\<close>

text \<open>
  A store with two users and one question, published at time 0 and open for seven days,
  with the choices Red and Blue; and a call of the vote view by user 1 for the choice
  with key \<open>k\<close>, one second after publication.
\<close>

definition example_question :: Question where
  "example_question =
     \<lparr>question_id = 1, question_text = ''Color?'', pub_date = 0, image_ref = None,
      lifespan_days = 7\<rparr>"

definition example_db :: db where
  "example_db =
     \<lparr>users = [1, 2], profiles = [], questions = [example_question],
      choices = [\<lparr>choice_id = 1, choice_question = 1, choice_text = ''Red'', votes = 0\<rparr>,
                 \<lparr>choice_id = 2, choice_question = 1, choice_text = ''Blue'', votes = 0\<rparr>],
      vote_rows = []\<rparr>"

definition example_call :: "int \<Rightarrow> vote_call" where
  "example_call k =
     \<lparr>call_now = 1000000, call_fault = None, call_user = Some 1, call_question = 1,
      call_choice = Number k\<rparr>"

text \<open>
  A question published at time 0 whose lifespan of three million days ends after the
  year 9999.
\<close>

definition far_question :: Question where
  "far_question =
     \<lparr>question_id = 2, question_text = ''Far?'', pub_date = 0, image_ref = None,
      lifespan_days = 3000000\<rparr>"

text \<open>
  The float operations as terms: each operation builds the term of its application.
\<close>

datatype float_expr = Truediv int int | Fmul float_expr int | Round float_expr int

definition symbolic_ops :: "float_expr float_ops" where
  "symbolic_ops = \<lparr>truediv = Truediv, fmul = Fmul, round_ndigits = Round\<rparr>"

text \<open>The example store after user 1 has voted for the choice with key \<open>k\<close>.\<close>

definition voted_db :: "nat \<Rightarrow> db" where
  "voted_db k =
     example_db\<lparr>vote_rows :=
       [\<lparr>vote_id = 1, vote_user = 1, vote_question = 1, vote_choice = k\<rparr>]\<rparr>"

text \<open>The example store with one vote counted for Red and three for Blue.\<close>

definition tallied_db :: db where
  "tallied_db =
     example_db\<lparr>choices :=
       [\<lparr>choice_id = 1, choice_question = 1, choice_text = ''Red'', votes = 1\<rparr>,
        \<lparr>choice_id = 2, choice_question = 1, choice_text = ''Blue'', votes = 3\<rparr>,
        \<lparr>choice_id = 3, choice_question = 2, choice_text = ''Other'', votes = 5\<rparr>]\<rparr>"

text \<open>
  A store with one user and no question, and the posted form of the question
  \<open>Color?\<close> with a lifespan of three days and the choice texts Red, \<open>second\<close>, Blue.
\<close>

definition empty_db :: db where
  "empty_db = \<lparr>users = [1], profiles = [], questions = [], choices = [], vote_rows = []\<rparr>"

definition color_post :: "string \<Rightarrow> question_post" where
  "color_post second =
     \<lparr>post_question_text = ''Color?'', post_image = None, post_lifespan_days = Some 3,
      post_choice1 = ''Red'', post_choice2 = second, post_choice3 = ''Blue''\<rparr>"

section \<open>Question lifecycle\<close>

lemmas is_active_eval = is_active_def timedelta_def datetime_add_def datetime_min_def
  datetime_max_def timedelta_days_def

text \<open>
  As long as the lifespan is at most 999999999 days and the publication time plus the
  lifespan is a datetime, \<open>is_active\<close> returns whether \<open>now\<close> is not later than that
  time; the boundary itself counts as active.
\<close>

lemma is_active_in_range:
  assumes "lifespan_days q \<le> 999999999"
    and "datetime_min \<le> pub_date q + timedelta_days (lifespan_days q)"
    and "pub_date q + timedelta_days (lifespan_days q) \<le> datetime_max"
  shows "is_active q now = Inr (now \<le> pub_date q + int (lifespan_days q) * 86400000000)"
  using assms
  by (simp add: is_active_def timedelta_def datetime_add_def timedelta_days_def mult.commute)

lemma is_active_example_boundary:
  "is_active example_question (0 + timedelta_days 7) = Inr True \<and>
   is_active example_question (0 + timedelta_days 7 + timedelta_seconds 1) = Inr False"
  by (simp add: is_active_eval timedelta_seconds_def example_question_def)

text \<open>
  C5. \<open>is_active\<close> does not return a truth value for every question. For the question
  published at time 0 with a lifespan of three million days, one second after its
  publication, \<open>now\<close> is not later than the publication time plus the lifespan, so the
  question is to be active; the code adds the lifespan to the publication time as a
  datetime, and raises \<open>OverflowError\<close>.
\<close>

theorem is_active_raises_overflow:
  "is_active far_question 1000000 = Inl OverflowError \<and>
   1000000 \<le> pub_date far_question + int (lifespan_days far_question) * 86400000000"
  by (simp add: is_active_eval far_question_def)

section \<open>The outcomes of the vote view\<close>

lemma get_question_Some:
  "get_question s pk = Some q \<Longrightarrow> q \<in> set (questions s) \<and> question_id q = pk"
  unfolding get_question_def by (auto simp: find_Some_iff)

lemma Vote_objects_create_Inl:
  "Vote_objects_create s u q c = Inl e \<Longrightarrow> e = IntegrityError \<and> votes_of_pair s u q \<noteq> []"
  by (auto simp: Vote_objects_create_def votes_of_pair_def list_ex_iff filter_empty_conv
      split: if_splits)

lemma Vote_objects_create_Inr:
  "Vote_objects_create s u q c = Inr s' \<Longrightarrow>
     votes_of_pair s u q = [] \<and>
     s' = s\<lparr>vote_rows := vote_rows s @
            [\<lparr>vote_id = next_id (map vote_id (vote_rows s)),
              vote_user = u, vote_question = q, vote_choice = c\<rparr>]\<rparr>"
  by (auto simp: Vote_objects_create_def votes_of_pair_def list_ex_iff filter_empty_conv
      split: if_splits)

lemma vote_outcomes:
  obtains
    (not_found) "get_question s qid = None"
      "vote now fault s ruser qid pv = (Http404, s)"
  | (raised) question e where "get_question s qid = Some question"
      "is_active question now = Inl e"
      "vote now fault s ruser qid pv = (Unhandled e, s)"
  | (closed) question where "get_question s qid = Some question"
      "is_active question now = Inr False"
      "vote now fault s ruser qid pv =
         (Redirect Index_page (Some (Level_error, Voting_finished)), s)"
  | (anonymous) question where "get_question s qid = Some question"
      "is_active question now = Inr True"
      "ruser = None" "vote now fault s ruser qid pv = (Redirect Login_page None, s)"
  | (no_choice) question u e where "get_question s qid = Some question"
      "is_active question now = Inr True" "ruser = Some u" "choice_set_get s question pv = Inl e"
      "vote now fault s ruser qid pv =
         (if e = KeyError \<or> e = DoesNotExist
          then Render_detail_error question (has_voted s ruser question)
          else Unhandled e, s)"
  | (already_voted) question u c where "get_question s qid = Some question"
      "is_active question now = Inr True" "ruser = Some u" "choice_set_get s question pv = Inr c"
      "Vote_objects_create s u qid (choice_id c) = Inl IntegrityError"
      "vote now fault s ruser qid pv =
         (Redirect (Results_page qid) (Some (Level_warning, Already_voted)), s)"
  | (save_raised) question u c s1 e where "get_question s qid = Some question"
      "is_active question now = Inr True" "ruser = Some u" "choice_set_get s question pv = Inr c"
      "Vote_objects_create s u qid (choice_id c) = Inr s1" "fault = Some e"
      "vote now fault s ruser qid pv =
         (if e = IntegrityError
          then Redirect (Results_page qid) (Some (Level_warning, Already_voted))
          else Unhandled e, s1)"
  | (counted) question u c s1 s2 where "get_question s qid = Some question"
      "is_active question now = Inr True" "ruser = Some u" "choice_set_get s question pv = Inr c"
      "Vote_objects_create s u qid (choice_id c) = Inr s1" "fault = None"
      "Choice_save None s1 (c\<lparr>votes := votes c + 1\<rparr>) = Inr s2"
      "vote now fault s ruser qid pv =
         (Redirect (Results_page qid) (Some (Level_success, Vote_counted)), s2)"
proof (cases "get_question s qid")
  case None
  then show ?thesis using not_found by (simp add: vote_def)
next
  case (Some question)
  note q = this
  then have qid: "question_id question = qid" by (simp add: get_question_Some)
  show ?thesis
  proof (cases "is_active question now")
    case (Inl e)
    with q show ?thesis using raised by (simp add: vote_def)
  next
    case (Inr active)
    show ?thesis
    proof (cases active)
    case False
    with q Inr show ?thesis using closed by (simp add: vote_def)
  next
    case True
    with Inr have active: "is_active question now = Inr True" by simp
    show ?thesis
    proof (cases ruser)
      case None
      with q active show ?thesis using anonymous by (simp add: vote_def)
    next
      case (Some u)
      note user = this
      show ?thesis
      proof (cases "choice_set_get s question pv")
        case (Inl e)
        with q active user show ?thesis using no_choice[of question u e]
          by (simp add: vote_def)
      next
        case (Inr c)
        note sel = this
        show ?thesis
        proof (cases "Vote_objects_create s u qid (choice_id c)")
          case (Inl e)
          then have "e = IntegrityError" by (simp add: Vote_objects_create_Inl)
          with Inl q active user sel qid show ?thesis using already_voted[of question u c]
            by (simp add: vote_def)
        next
          case (Inr s1)
          note created = this
          show ?thesis
          proof (cases fault)
            case None
            then have "Choice_save None s1 (c\<lparr>votes := votes c + 1\<rparr>) =
                Inr (s1\<lparr>choices :=
                  (if list_ex (\<lambda>x. choice_id x = choice_id c) (choices s1)
                   then map (\<lambda>x. if choice_id x = choice_id c then c\<lparr>votes := votes c + 1\<rparr> else x)
                     (choices s1)
                   else choices s1 @ [c\<lparr>votes := votes c + 1\<rparr>])\<rparr>)"
              by (simp add: Choice_save_def)
            with None q active user sel created qid show ?thesis
              using counted[of question u c s1] by (simp add: vote_def)
          next
            case (Some e)
            then have "Choice_save fault s1 (c\<lparr>votes := votes c + 1\<rparr>) = Inl e"
              by (simp add: Choice_save_def)
            with Some q active user sel created qid show ?thesis
              using save_raised[of question u c s1 e] by (simp add: vote_def)
          qed
        qed
      qed
    qed
    qed
  qed
qed

lemma Choice_save_None:
  "Choice_save None s c = Inr s' \<Longrightarrow>
     s' = s\<lparr>choices :=
            (if list_ex (\<lambda>x. choice_id x = choice_id c) (choices s)
             then map (\<lambda>x. if choice_id x = choice_id c then c else x) (choices s)
             else choices s @ [c])\<rparr>"
  by (simp add: Choice_save_def)

lemma vote_rows_after_vote:
  "vote_rows (snd (vote now fault s ruser qid pv)) = vote_rows s \<or>
   (\<exists>u c. votes_of_pair s u qid = [] \<and>
      vote_rows (snd (vote now fault s ruser qid pv)) =
        vote_rows s @ [\<lparr>vote_id = next_id (map vote_id (vote_rows s)),
                         vote_user = u, vote_question = qid, vote_choice = c\<rparr>])"
proof (cases rule: vote_outcomes[of s qid now fault ruser pv])
  case (save_raised question u c s1 e)
  then show ?thesis by (auto dest!: Vote_objects_create_Inr)
next
  case (counted question u c s1 s2)
  then show ?thesis by (auto dest!: Vote_objects_create_Inr Choice_save_None)
qed simp_all

lemma vote_unique_together:
  assumes "unique_together s"
  shows "unique_together (snd (vote now fault s ruser qid pv))"
proof -
  have "(u, qid) \<notin> (\<lambda>v. (vote_user v, vote_question v)) ` set (vote_rows s)"
    if "votes_of_pair s u qid = []" for u
    using that by (auto simp: votes_of_pair_def filter_empty_conv)
  with assms vote_rows_after_vote[of now fault s ruser qid pv] show ?thesis
    by (auto simp: unique_together_def)
qed

lemma run_votes_unique_together:
  "unique_together s \<Longrightarrow> unique_together (run_votes calls s)"
  unfolding run_votes_def
  by (induction calls arbitrary: s) (simp_all add: vote_step_def vote_unique_together)

lemma distinct_key_filter:
  "distinct (map f xs) \<Longrightarrow> length (filter (\<lambda>v. f v = k) xs) \<le> 1"
  by (induction xs) (auto simp: filter_empty_conv image_iff)

lemma unique_together_at_most_one:
  assumes "unique_together s"
  shows "length (votes_of_pair s u q) \<le> 1"
proof -
  from assms have "distinct (map (\<lambda>v. (vote_user v, vote_question v)) (vote_rows s))"
    by (simp add: unique_together_def)
  from distinct_key_filter[OF this, of "(u, q)"] show ?thesis
    by (simp add: votes_of_pair_def)
qed

section \<open>One vote per user and question\<close>

text \<open>
  C1. In every state reached from a store that holds at most one vote per user and
  question, by any sequence of calls of the vote view (any users, questions, posted
  choices, times and write failures), at most one Vote row exists for each pair of a user
  and a question: the insert itself refuses a second row for the pair.
\<close>

theorem one_vote_per_user_and_question:
  assumes "unique_together s"
  shows "length (votes_of_pair (run_votes calls s) u q) \<le> 1"
  using assms by (intro unique_together_at_most_one run_votes_unique_together)

theorem one_vote_per_user_and_question_witness:
  "unique_together example_db \<and>
   length (votes_of_pair (run_votes [example_call 1, example_call 2] example_db) 1 1) \<le> 1"
  using one_vote_per_user_and_question
    [of example_db "[example_call 1, example_call 2]" 1 1]
  by (simp add: unique_together_def example_db_def)

section \<open>Evaluating the views on the example data\<close>

lemmas example_defs = example_db_def example_question_def example_call_def

lemmas vote_eval = vote_def get_question_def
      is_active_eval choice_set_get_def choice_set_all_def
      Vote_objects_create_def Choice_save_def next_id_def has_voted_def

section \<open>The selected choice and its row\<close>

lemma choice_set_get_Inr:
  "choice_set_get s q pv = Inr c \<Longrightarrow>
     c \<in> set (choices s) \<and> choice_question c = question_id q \<and> pv = Number (int (choice_id c))"
proof -
  assume a: "choice_set_get s q pv = Inr c"
  then obtain k where k: "pv = Number k"
    by (cases pv) (simp_all add: choice_set_get_def)
  with a have "filter (\<lambda>c. int (choice_id c) = k) (choice_set_all s q) = [c]"
    by (simp add: choice_set_get_def split: list.splits)
  then have "c \<in> set (filter (\<lambda>c. int (choice_id c) = k) (choice_set_all s q))"
    by simp
  with k show ?thesis by (auto simp: choice_set_all_def)
qed

lemma map_replace_distinct:
  assumes "distinct (map f xs)" "i < length xs"
  shows "map (\<lambda>x. if f x = f (xs ! i) then y else x) xs = xs[i := y]"
proof (rule nth_equalityI)
  show "length (map (\<lambda>x. if f x = f (xs ! i) then y else x) xs) = length (xs[i := y])"
    by simp
next
  fix j assume "j < length (map (\<lambda>x. if f x = f (xs ! i) then y else x) xs)"
  then have j: "j < length xs" by simp
  from assms j have "f (xs ! j) = f (xs ! i) \<longleftrightarrow> j = i"
    using nth_eq_iff_index_eq[of "map f xs" j i] by simp
  with j assms(2) show "map (\<lambda>x. if f x = f (xs ! i) then y else x) xs ! j = xs[i := y] ! j"
    by (simp add: nth_list_update)
qed

section \<open>Insert and increment are two separate writes\<close>

lemma no_tally_without_vote_row:
  assumes "choices (snd (vote now fault s ruser qid pv)) \<noteq> choices s"
  shows "\<exists>u c. vote_rows (snd (vote now fault s ruser qid pv)) =
           vote_rows s @ [\<lparr>vote_id = next_id (map vote_id (vote_rows s)), vote_user = u,
                            vote_question = qid, vote_choice = c\<rparr>]"
proof (cases rule: vote_outcomes[of s qid now fault ruser pv])
  case (save_raised question u c s1 e)
  with assms show ?thesis by (auto dest!: Vote_objects_create_Inr)
next
  case (counted question u c s1 s2)
  then show ?thesis by (auto dest!: Vote_objects_create_Inr Choice_save_None)
qed (use assms in simp_all)

lemma two_writes:
  assumes "get_question s qid = Some question" and "is_active question now = Inr True"
    and "choice_set_get s question pv = Inr c" and "votes_of_pair s u qid = []"
  shows "snd (vote now (Some e) s (Some u) qid pv) =
           s\<lparr>vote_rows := vote_rows s @
               [\<lparr>vote_id = next_id (map vote_id (vote_rows s)), vote_user = u,
                 vote_question = qid, vote_choice = choice_id c\<rparr>]\<rparr> \<and>
         snd (vote now None s (Some u) qid pv) =
           s\<lparr>vote_rows := vote_rows s @
               [\<lparr>vote_id = next_id (map vote_id (vote_rows s)), vote_user = u,
                 vote_question = qid, vote_choice = choice_id c\<rparr>],
             choices := map (\<lambda>x. if choice_id x = choice_id c
                                   then c\<lparr>votes := votes c + 1\<rparr> else x) (choices s)\<rparr>"
proof -
  from assms(1) have qid: "question_id question = qid" by (simp add: get_question_Some)
  from assms(3) have c: "c \<in> set (choices s)" by (simp add: choice_set_get_Inr)
  from assms(4) have nv: "\<not> list_ex (\<lambda>v. vote_user v = u \<and> vote_question v = qid) (vote_rows s)"
    by (auto simp: votes_of_pair_def list_ex_iff filter_empty_conv)
  from c have ex: "list_ex (\<lambda>x. choice_id x = choice_id c) (choices s)"
    by (auto simp: list_ex_iff)
  show ?thesis
    using assms(1,2,3) qid nv ex
    by (simp add: vote_def Vote_objects_create_def Choice_save_def)
qed

text \<open>
  C2, as the code has it. Let the user have no vote on the question, the question be open
  and the posted choice be one of its choices. When the write of the tally raises (any
  exception) after the Vote row was inserted, the store the view leaves behind holds the
  new Vote row and every tally as before: nothing rolls the insert back. When the write
  succeeds, the store holds the new Vote row and the row of the chosen choice with one
  vote more. The other way round holds of every call: no tally changes unless the call
  has inserted the Vote row.
\<close>

theorem vote_writes_committed_separately:
  "(get_question s qid = Some question \<and> is_active question now = Inr True \<and>
    choice_set_get s question pv = Inr c \<and> votes_of_pair s u qid = [] \<longrightarrow>
      snd (vote now (Some e) s (Some u) qid pv) =
        s\<lparr>vote_rows := vote_rows s @
            [\<lparr>vote_id = next_id (map vote_id (vote_rows s)), vote_user = u,
              vote_question = qid, vote_choice = choice_id c\<rparr>]\<rparr> \<and>
      snd (vote now None s (Some u) qid pv) =
        s\<lparr>vote_rows := vote_rows s @
            [\<lparr>vote_id = next_id (map vote_id (vote_rows s)), vote_user = u,
              vote_question = qid, vote_choice = choice_id c\<rparr>],
          choices := map (\<lambda>x. if choice_id x = choice_id c
                                then c\<lparr>votes := votes c + 1\<rparr> else x) (choices s)\<rparr>) \<and>
   (choices (snd (vote now fault s ruser qid pv)) \<noteq> choices s \<longrightarrow>
      (\<exists>u' c'. vote_rows (snd (vote now fault s ruser qid pv)) =
         vote_rows s @ [\<lparr>vote_id = next_id (map vote_id (vote_rows s)), vote_user = u',
                          vote_question = qid, vote_choice = c'\<rparr>]))"
  using two_writes[of s qid question now pv c u e]
    no_tally_without_vote_row[of now fault s ruser qid pv]
  by blast

theorem vote_writes_committed_separately_witness:
  "get_question example_db 1 = Some example_question \<and>
   is_active example_question 1000000 = Inr True \<and>
   choice_set_get example_db example_question (Number 1) =
     Inr \<lparr>choice_id = 1, choice_question = 1, choice_text = ''Red'', votes = 0\<rparr> \<and>
   votes_of_pair example_db 1 1 = [] \<and>
   vote_rows (snd (vote 1000000 (Some IntegrityError) example_db (Some 1) 1 (Number 1))) =
     [\<lparr>vote_id = 1, vote_user = 1, vote_question = 1, vote_choice = 1\<rparr>] \<and>
   map votes (choices (snd (vote 1000000 (Some IntegrityError) example_db (Some 1) 1 (Number 1))))
     = [0, 0] \<and>
   map votes (choices (snd (vote 1000000 None example_db (Some 1) 1 (Number 1)))) = [1, 0] \<and>
   choices (snd (vote 1000000 None example_db (Some 1) 1 (Number 1))) \<noteq> choices example_db \<and>
   (\<exists>u' c'. vote_rows (snd (vote 1000000 None example_db (Some 1) 1 (Number 1))) =
      vote_rows example_db @
        [\<lparr>vote_id = next_id (map vote_id (vote_rows example_db)), vote_user = u',
          vote_question = 1, vote_choice = c'\<rparr>])"
proof -
  have h1: "get_question example_db 1 = Some example_question"
    by (simp add: get_question_def example_defs)
  have h2: "is_active example_question 1000000 = Inr True"
    by (simp add: is_active_eval example_defs)
  have h3: "choice_set_get example_db example_question (Number 1) =
     Inr \<lparr>choice_id = 1, choice_question = 1, choice_text = ''Red'', votes = 0\<rparr>"
    by (simp add: choice_set_get_def choice_set_all_def example_defs)
  have h4: "votes_of_pair example_db 1 1 = []"
    by (simp add: votes_of_pair_def example_defs)
  have h5: "choices (snd (vote 1000000 None example_db (Some 1) 1 (Number 1))) \<noteq>
      choices example_db"
    by (simp add: vote_eval example_defs)
  note t = vote_writes_committed_separately
    [of example_db 1 example_question 1000000 "Number 1"
      "\<lparr>choice_id = 1, choice_question = 1, choice_text = ''Red'', votes = 0\<rparr>"
      1 IntegrityError None "Some 1"]
  from t h1 h2 h3 h4 have
    "snd (vote 1000000 (Some IntegrityError) example_db (Some 1) 1 (Number 1)) =
       example_db\<lparr>vote_rows := vote_rows example_db @
         [\<lparr>vote_id = next_id (map vote_id (vote_rows example_db)), vote_user = 1,
           vote_question = 1, vote_choice = 1\<rparr>]\<rparr>"
    "snd (vote 1000000 None example_db (Some 1) 1 (Number 1)) =
       example_db\<lparr>vote_rows := vote_rows example_db @
           [\<lparr>vote_id = next_id (map vote_id (vote_rows example_db)), vote_user = 1,
             vote_question = 1, vote_choice = 1\<rparr>],
         choices := map (\<lambda>x. if choice_id x = 1
              then \<lparr>choice_id = 1, choice_question = 1, choice_text = ''Red'', votes = 0 + 1\<rparr>
              else x) (choices example_db)\<rparr>"
    by simp_all
  then have w: "vote_rows (snd (vote 1000000 (Some IntegrityError) example_db (Some 1) 1 (Number 1))) =
       [\<lparr>vote_id = 1, vote_user = 1, vote_question = 1, vote_choice = 1\<rparr>]"
    "map votes (choices (snd (vote 1000000 (Some IntegrityError) example_db (Some 1) 1 (Number 1))))
       = [0, 0]"
    "map votes (choices (snd (vote 1000000 None example_db (Some 1) 1 (Number 1)))) = [1, 0]"
    by (simp_all add: example_defs next_id_def)
  from t h5 have "\<exists>u' c'. vote_rows (snd (vote 1000000 None example_db (Some 1) 1 (Number 1))) =
      vote_rows example_db @
        [\<lparr>vote_id = next_id (map vote_id (vote_rows example_db)), vote_user = u',
          vote_question = 1, vote_choice = c'\<rparr>]"
    by blast
  with h1 h2 h3 h4 h5 w show ?thesis by blast
qed

text \<open>
  The claim as stated fails: on the example store, user 1 votes for Red and the write of
  the tally raises a database error. The view leaves the Vote row in the store, and no
  tally has changed.
\<close>

theorem vote_not_atomic_counterexample:
  "vote 1000000 (Some DatabaseError) example_db (Some 1) 1 (Number 1) =
     (Unhandled DatabaseError,
      example_db\<lparr>vote_rows :=
        [\<lparr>vote_id = 1, vote_user = 1, vote_question = 1, vote_choice = 1\<rparr>]\<rparr>)"
  by (simp add: vote_eval example_defs)

section \<open>The effect of a counted vote\<close>

text \<open>
  C3. When the vote view answers that the vote was counted, the store it leaves differs
  from the store before in two places only: the Vote table has one more row (for the
  user, the question and the chosen choice), and one row of the Choice table, the chosen
  choice of this question, has its \<open>votes\<close> one greater. Every other row of every
  table, in particular every other choice of this and of any other question, is
  unchanged. Primary keys of choices are unique.
\<close>

theorem vote_success_frame:
  assumes ids: "unique_choice_ids s"
    and ok: "vote now fault s ruser qid pv =
       (Redirect (Results_page r) (Some (Level_success, Vote_counted)), s')"
  shows "\<exists>u i. ruser = Some u \<and> r = qid \<and> i < length (choices s) \<and>
           choice_question (choices s ! i) = qid \<and>
           pv = Number (int (choice_id (choices s ! i))) \<and>
           s' = s\<lparr>vote_rows := vote_rows s @
                     [\<lparr>vote_id = next_id (map vote_id (vote_rows s)), vote_user = u,
                       vote_question = qid, vote_choice = choice_id (choices s ! i)\<rparr>],
                   choices := (choices s)
                     [i := (choices s ! i)\<lparr>votes := votes (choices s ! i) + 1\<rparr>]\<rparr>"
proof (cases rule: vote_outcomes[of s qid now fault ruser pv])
  case (counted question u c s1 s2)
  from counted(4) have c: "c \<in> set (choices s)" "choice_question c = question_id question"
    "pv = Number (int (choice_id c))"
    by (simp_all add: choice_set_get_Inr)
  from counted(1) have qid: "question_id question = qid" by (simp add: get_question_Some)
  from c(1) obtain i where i: "i < length (choices s)" "choices s ! i = c"
    by (auto simp: in_set_conv_nth)
  from counted(5) have s1: "s1 = s\<lparr>vote_rows := vote_rows s @
            [\<lparr>vote_id = next_id (map vote_id (vote_rows s)),
              vote_user = u, vote_question = qid, vote_choice = choice_id c\<rparr>]\<rparr>"
    by (simp add: Vote_objects_create_Inr)
  have ex: "list_ex (\<lambda>x. choice_id x = choice_id c) (choices s1)"
    using c(1) s1 by (auto simp: list_ex_iff)
  from ids have "distinct (map choice_id (choices s))" by (simp add: unique_choice_ids_def)
  from map_replace_distinct[OF this i(1), of "c\<lparr>votes := votes c + 1\<rparr>"] i(2)
  have "map (\<lambda>x. if choice_id x = choice_id c then c\<lparr>votes := votes c + 1\<rparr> else x) (choices s)
      = (choices s)[i := c\<lparr>votes := votes c + 1\<rparr>]"
    by simp
  with Choice_save_None[OF counted(7)] ex s1
  have "s2 = s\<lparr>vote_rows := vote_rows s @
            [\<lparr>vote_id = next_id (map vote_id (vote_rows s)),
              vote_user = u, vote_question = qid, vote_choice = choice_id c\<rparr>],
            choices := (choices s)[i := c\<lparr>votes := votes c + 1\<rparr>]\<rparr>"
    by simp
  with counted(3,8) ok c qid i show ?thesis by auto
qed (use ok in \<open>auto split: if_splits\<close>)

theorem vote_success_frame_witness:
  "unique_choice_ids example_db \<and>
   vote 1000000 None example_db (Some 1) 1 (Number 2) =
     (Redirect (Results_page 1) (Some (Level_success, Vote_counted)),
      example_db\<lparr>vote_rows :=
          [\<lparr>vote_id = 1, vote_user = 1, vote_question = 1, vote_choice = 2\<rparr>],
        choices :=
          [\<lparr>choice_id = 1, choice_question = 1, choice_text = ''Red'', votes = 0\<rparr>,
           \<lparr>choice_id = 2, choice_question = 1, choice_text = ''Blue'', votes = 1\<rparr>]\<rparr>) \<and>
   (\<exists>u i. i < length (choices example_db) \<and>
      Number 2 = Number (int (choice_id (choices example_db ! i))) \<and>
      example_db\<lparr>vote_rows :=
          [\<lparr>vote_id = 1, vote_user = 1, vote_question = 1, vote_choice = 2\<rparr>],
        choices :=
          [\<lparr>choice_id = 1, choice_question = 1, choice_text = ''Red'', votes = 0\<rparr>,
           \<lparr>choice_id = 2, choice_question = 1, choice_text = ''Blue'', votes = 1\<rparr>]\<rparr> =
      example_db\<lparr>vote_rows := vote_rows example_db @
          [\<lparr>vote_id = next_id (map vote_id (vote_rows example_db)), vote_user = u,
            vote_question = 1, vote_choice = choice_id (choices example_db ! i)\<rparr>],
        choices := (choices example_db)
          [i := (choices example_db ! i)\<lparr>votes := votes (choices example_db ! i) + 1\<rparr>]\<rparr>)"
proof -
  have h1: "unique_choice_ids example_db"
    by (simp add: unique_choice_ids_def example_defs)
  have h2: "vote 1000000 None example_db (Some 1) 1 (Number 2) =
     (Redirect (Results_page 1) (Some (Level_success, Vote_counted)),
      example_db\<lparr>vote_rows :=
          [\<lparr>vote_id = 1, vote_user = 1, vote_question = 1, vote_choice = 2\<rparr>],
        choices :=
          [\<lparr>choice_id = 1, choice_question = 1, choice_text = ''Red'', votes = 0\<rparr>,
           \<lparr>choice_id = 2, choice_question = 1, choice_text = ''Blue'', votes = 1\<rparr>]\<rparr>)"
    by (simp add: vote_eval example_defs)
  from vote_success_frame[OF h1 h2] h1 h2 show ?thesis by blast
qed

section \<open>Voting a second time\<close>

text \<open>
  C4, as the code has it. When an authenticated user who already has a vote on an
  existing, open question posts a choice of that question, the view answers with the
  already-voted warning and a redirect to the results page of the question, and returns
  the store unchanged: no Vote row is added and no tally changes. The store after the
  call is the store before it, so a retry does the same again. The response names the
  question only; it does not carry the choice of the existing vote.
\<close>

theorem already_voted_no_change:
  assumes "get_question s qid = Some question" and "is_active question now = Inr True"
    and "choice_set_get s question pv = Inr c" and "votes_of_pair s u qid \<noteq> []"
  shows "vote now fault s (Some u) qid pv =
           (Redirect (Results_page qid) (Some (Level_warning, Already_voted)), s)"
proof -
  from assms(1) have qid: "question_id question = qid" by (simp add: get_question_Some)
  from assms(4) have "list_ex (\<lambda>v. vote_user v = u \<and> vote_question v = qid) (vote_rows s)"
    by (auto simp: votes_of_pair_def list_ex_iff filter_empty_conv)
  with assms(1,2,3) qid show ?thesis
    by (simp add: vote_def Vote_objects_create_def)
qed

theorem already_voted_no_change_witness:
  "get_question (voted_db 2) 1 = Some example_question \<and>
   is_active example_question 1000000 = Inr True \<and>
   choice_set_get (voted_db 2) example_question (Number 1) =
     Inr \<lparr>choice_id = 1, choice_question = 1, choice_text = ''Red'', votes = 0\<rparr> \<and>
   votes_of_pair (voted_db 2) 1 1 \<noteq> [] \<and>
   vote 1000000 None (voted_db 2) (Some 1) 1 (Number 1) =
     (Redirect (Results_page 1) (Some (Level_warning, Already_voted)), voted_db 2)"
proof -
  have h1: "get_question (voted_db 2) 1 = Some example_question"
    by (simp add: get_question_def voted_db_def example_defs)
  have h2: "is_active example_question 1000000 = Inr True"
    by (simp add: is_active_eval example_defs)
  have h3: "choice_set_get (voted_db 2) example_question (Number 1) =
     Inr \<lparr>choice_id = 1, choice_question = 1, choice_text = ''Red'', votes = 0\<rparr>"
    by (simp add: choice_set_get_def choice_set_all_def voted_db_def example_defs)
  have h4: "votes_of_pair (voted_db 2) 1 1 \<noteq> []"
    by (simp add: votes_of_pair_def voted_db_def example_defs)
  from already_voted_no_change[OF h1 h2 h3 h4, of None] h1 h2 h3 h4 show ?thesis
    by simp
qed

text \<open>
  The claim as stated fails: the response does not yield the choice of the existing
  vote. In two stores that differ only in the choice user 1 voted for, the view gives
  the same response.
\<close>

theorem already_voted_response_counterexample:
  "vote 1000000 None (voted_db 1) (Some 1) 1 (Number 1) =
     (Redirect (Results_page 1) (Some (Level_warning, Already_voted)), voted_db 1) \<and>
   vote 1000000 None (voted_db 2) (Some 1) 1 (Number 1) =
     (Redirect (Results_page 1) (Some (Level_warning, Already_voted)), voted_db 2) \<and>
   map vote_choice (votes_of_pair (voted_db 1) 1 1) = [1] \<and>
   map vote_choice (votes_of_pair (voted_db 2) 1 1) = [2]"
  by (simp add: vote_eval example_defs voted_db_def votes_of_pair_def)

section \<open>The listing query and is_active\<close>

text \<open>
  C6. The listing query and \<open>is_active\<close> do not agree. The example question, published
  at time 0 with a lifespan of seven days, is active at exactly seven days after its
  publication, and the listing query at that time does not return it: the query compares
  with a strict \<open>greater than\<close>, and its left side is text without fractional digits.
\<close>

theorem listing_differs_from_is_active_at_boundary:
  "is_active example_question 604800000000 = Inr True \<and>
   IndexView_get_queryset 604800000000 example_db = []"
  by (simp add: is_active_eval IndexView_get_queryset_def extra_where_active_def text_gt_def
      sqlite_datetime_plus_days_def strftime_f_def example_defs)

section \<open>Results\<close>

lemma percent_of_total:
  "percent_of ops t c =
     Inr (if 0 < t then Float_percent (round_ndigits ops (fmul ops (truediv ops (votes c) t) 100) 1)
          else Int_percent 0)"
  by (simp add: percent_of_def py_truediv_def)

lemma results_loop_map:
  "results_loop ops t cs acc =
     Inr (acc @ map (\<lambda>c. (c, if 0 < t
        then Float_percent (round_ndigits ops (fmul ops (truediv ops (votes c) t) 100) 1)
        else Int_percent 0)) cs)"
  by (induction cs arbitrary: acc) (simp_all add: percent_of_total)

lemma get_context_data_map:
  "get_context_data ops s q =
     (let cs = filter (\<lambda>c. choice_question c = question_id q) (choices s);
          total = sum_list (map votes cs)
      in Inr (map (\<lambda>c. (c, if 0 < total
           then Float_percent (round_ndigits ops (fmul ops (truediv ops (votes c) total) 100) 1)
           else Int_percent 0)) cs))"
  by (simp add: get_context_data_def results_loop_map choice_set_all_def Let_def)

lemma ResultsView_get_results:
  "ResultsView_get ops s pk =
     (case get_question s pk of
        None \<Rightarrow> (Results_404, s)
      | Some q \<Rightarrow>
          (let cs = filter (\<lambda>c. choice_question c = question_id q) (choices s);
               total = sum_list (map votes cs)
           in (Render_results q (map (\<lambda>c. (c, if 0 < total
                 then Float_percent
                   (round_ndigits ops (fmul ops (truediv ops (votes c) total) 100) 1)
                 else Int_percent 0)) cs), s)))"
  by (simp add: ResultsView_get_def get_context_data_map Let_def split: option.splits)

text \<open>
  C7. The results of a question are one pair of a choice and a percentage for each row
  of the Choice table that belongs to the question, in table order (the order of
  insertion). With \<open>total\<close> the sum of the tallies of these rows, the percentage of a
  choice is the float \<open>round((votes / total) * 100, 1)\<close> when \<open>total\<close> is positive, and
  the integer 0 for every choice otherwise. The computation never raises (in particular
  it never divides by zero), the results view shows exactly these results for a stored
  question, and it returns the store as it found it. On the example store with the
  tallies 1 and 3 the results are Red with \<open>round((1 / 4) * 100, 1)\<close> and Blue with
  \<open>round((3 / 4) * 100, 1)\<close>; with the tallies 0 and 0 both percentages are 0.
\<close>

theorem compute_results_percentages:
  "(let cs = filter (\<lambda>c. choice_question c = question_id q) (choices s);
        total = sum_list (map votes cs)
    in get_context_data ops s q =
         Inr (map (\<lambda>c. (c, if 0 < total
            then Float_percent
              (round_ndigits ops (fmul ops (truediv ops (votes c) total) 100) 1)
            else Int_percent 0)) cs)) \<and>
   (case get_question s pk of
      None \<Rightarrow> fst (ResultsView_get ops s pk) = Results_404
    | Some q' \<Rightarrow>
        (\<exists>results. get_context_data ops s q' = Inr results \<and>
           fst (ResultsView_get ops s pk) = Render_results q' results)) \<and>
   (\<forall>e. fst (ResultsView_get ops s pk) \<noteq> Results_unhandled e) \<and>
   snd (ResultsView_get ops s pk) = s \<and>
   ResultsView_get symbolic_ops tallied_db 1 =
     (Render_results example_question
        [(\<lparr>choice_id = 1, choice_question = 1, choice_text = ''Red'', votes = 1\<rparr>,
          Float_percent (Round (Fmul (Truediv 1 4) 100) 1)),
         (\<lparr>choice_id = 2, choice_question = 1, choice_text = ''Blue'', votes = 3\<rparr>,
          Float_percent (Round (Fmul (Truediv 3 4) 100) 1))], tallied_db) \<and>
   get_context_data symbolic_ops tallied_db example_question =
     Inr [(\<lparr>choice_id = 1, choice_question = 1, choice_text = ''Red'', votes = 1\<rparr>,
           Float_percent (Round (Fmul (Truediv 1 4) 100) 1)),
          (\<lparr>choice_id = 2, choice_question = 1, choice_text = ''Blue'', votes = 3\<rparr>,
           Float_percent (Round (Fmul (Truediv 3 4) 100) 1))] \<and>
   get_context_data symbolic_ops example_db example_question =
     Inr [(\<lparr>choice_id = 1, choice_question = 1, choice_text = ''Red'', votes = 0\<rparr>,
           Int_percent 0),
          (\<lparr>choice_id = 2, choice_question = 1, choice_text = ''Blue'', votes = 0\<rparr>,
           Int_percent 0)]"
proof (intro conjI)
  show "let cs = filter (\<lambda>c. choice_question c = question_id q) (choices s);
        total = sum_list (map votes cs)
    in get_context_data ops s q =
         Inr (map (\<lambda>c. (c, if 0 < total
            then Float_percent
              (round_ndigits ops (fmul ops (truediv ops (votes c) total) 100) 1)
            else Int_percent 0)) cs)"
    by (simp add: get_context_data_map Let_def)
  show "case get_question s pk of
      None \<Rightarrow> fst (ResultsView_get ops s pk) = Results_404
    | Some q' \<Rightarrow>
        (\<exists>results. get_context_data ops s q' = Inr results \<and>
           fst (ResultsView_get ops s pk) = Render_results q' results)"
    by (simp add: ResultsView_get_def get_context_data_map Let_def split: option.splits)
  show "\<forall>e. fst (ResultsView_get ops s pk) \<noteq> Results_unhandled e"
    by (simp add: ResultsView_get_results Let_def split: option.splits)
  show "snd (ResultsView_get ops s pk) = s"
    by (simp add: ResultsView_get_results Let_def split: option.splits)
  show "ResultsView_get symbolic_ops tallied_db 1 =
     (Render_results example_question
        [(\<lparr>choice_id = 1, choice_question = 1, choice_text = ''Red'', votes = 1\<rparr>,
          Float_percent (Round (Fmul (Truediv 1 4) 100) 1)),
         (\<lparr>choice_id = 2, choice_question = 1, choice_text = ''Blue'', votes = 3\<rparr>,
          Float_percent (Round (Fmul (Truediv 3 4) 100) 1))], tallied_db)"
    by (simp add: ResultsView_get_def get_question_def get_context_data_def choice_set_all_def
        percent_of_def py_truediv_def symbolic_ops_def tallied_db_def example_db_def
        example_question_def)
  show "get_context_data symbolic_ops tallied_db example_question =
     Inr [(\<lparr>choice_id = 1, choice_question = 1, choice_text = ''Red'', votes = 1\<rparr>,
           Float_percent (Round (Fmul (Truediv 1 4) 100) 1)),
          (\<lparr>choice_id = 2, choice_question = 1, choice_text = ''Blue'', votes = 3\<rparr>,
           Float_percent (Round (Fmul (Truediv 3 4) 100) 1))]"
    by (simp add: get_context_data_def choice_set_all_def percent_of_def py_truediv_def
        symbolic_ops_def tallied_db_def example_db_def example_question_def)
  show "get_context_data symbolic_ops example_db example_question =
     Inr [(\<lparr>choice_id = 1, choice_question = 1, choice_text = ''Red'', votes = 0\<rparr>,
           Int_percent 0),
          (\<lparr>choice_id = 2, choice_question = 1, choice_text = ''Blue'', votes = 0\<rparr>,
           Int_percent 0)]"
    by (simp add: get_context_data_def choice_set_all_def percent_of_def py_truediv_def
        symbolic_ops_def example_db_def example_question_def)
qed

section \<open>The choices of a new question\<close>

lemma create_choices_rows:
  "\<exists>rows. create_choices s (Some pk) ts = Inr (s\<lparr>choices := choices s @ rows\<rparr>) \<and>
     map choice_text rows = filter (\<lambda>t. t \<noteq> []) ts \<and>
     map choice_question rows = replicate (length rows) pk \<and>
     map votes rows = replicate (length rows) 0"
proof (induction ts arbitrary: s)
  case Nil
  show ?case by (rule exI[of _ "[]"]) simp
next
  case (Cons t ts)
  show ?case
  proof (cases "t = []")
    case True
    with Cons[of s] show ?thesis by simp
  next
    case False
    define row where "row = \<lparr>choice_id = next_id (map choice_id (choices s)),
      choice_question = pk, choice_text = t, votes = 0\<rparr>"
    define s1 where "s1 = s\<lparr>choices := choices s @ [row]\<rparr>"
    have c: "Choice_objects_create s (Some pk) t = Inr s1"
      by (simp add: Choice_objects_create_def s1_def row_def)
    from Cons[of s1] obtain rows where
      r: "create_choices s1 (Some pk) ts = Inr (s1\<lparr>choices := choices s1 @ rows\<rparr>)"
        "map choice_text rows = filter (\<lambda>t. t \<noteq> []) ts"
        "map choice_question rows = replicate (length rows) pk"
        "map votes rows = replicate (length rows) 0"
      by blast
    have "create_choices s (Some pk) (t # ts) = Inr (s\<lparr>choices := choices s @ (row # rows)\<rparr>)"
      using False c r(1) by (simp add: s1_def)
    moreover have "map choice_text (row # rows) = filter (\<lambda>t. t \<noteq> []) (t # ts)"
      using False r(2) by (simp add: row_def)
    moreover have "map choice_question (row # rows) = replicate (length (row # rows)) pk"
      using r(3) by (simp add: row_def)
    moreover have "map votes (row # rows) = replicate (length (row # rows)) 0"
      using r(4) by (simp add: row_def)
    ultimately show ?thesis by blast
  qed
qed

text \<open>
  C8. Saving the form (with \<open>commit=True\<close>) always succeeds. It appends the question
  and then one Choice row per non-empty text among the three choice fields, in the order
  of the fields, each row referring to the new question; an empty text creates no row.
  Posting Red, the empty text and Blue gives a question with exactly the choices Red and
  Blue, in this order, and so does posting Red, a text of blanks and Blue, since the
  character field strips a blank text to the empty one.
\<close>

theorem one_choice_per_nonempty_text:
  "(\<exists>s' rows. QuestionCreateForm_save now True s cd =
        Inr (Some (next_id (map question_id (questions s))), s') \<and>
      questions s' = questions s @
        [\<lparr>question_id = next_id (map question_id (questions s)),
          question_text = cleaned_question_text cd, pub_date = now,
          image_ref = cleaned_image cd, lifespan_days = cleaned_lifespan_days cd\<rparr>] \<and>
      choices s' = choices s @ rows \<and>
      map choice_text rows = filter (\<lambda>t. t \<noteq> []) [choice1 cd, choice2 cd, choice3 cd] \<and>
      map choice_question rows =
        replicate (length rows) (next_id (map question_id (questions s)))) \<and>
   choice_texts_of (snd (question_create 0 empty_db (Some 1) POST (color_post []))) 1 =
     [''Red'', ''Blue''] \<and>
   choice_texts_of (snd (question_create 0 empty_db (Some 1) POST (color_post ''  ''))) 1 =
     [''Red'', ''Blue'']"
proof (intro conjI)
  define s1 where "s1 = snd (Question_save now s cd)"
  define pk where "pk = next_id (map question_id (questions s))"
  have qs: "Question_save now s cd = (pk, s1)"
    by (simp add: s1_def pk_def Question_save_def Let_def)
  from create_choices_rows[of s1 pk "[choice1 cd, choice2 cd, choice3 cd]"]
  obtain rows where
    r: "create_choices s1 (Some pk) [choice1 cd, choice2 cd, choice3 cd] =
          Inr (s1\<lparr>choices := choices s1 @ rows\<rparr>)"
      "map choice_text rows = filter (\<lambda>t. t \<noteq> []) [choice1 cd, choice2 cd, choice3 cd]"
      "map choice_question rows = replicate (length rows) pk"
    by blast
  have "QuestionCreateForm_save now True s cd = Inr (Some pk, s1\<lparr>choices := choices s1 @ rows\<rparr>)"
    using qs r(1) by (simp add: QuestionCreateForm_save_def)
  moreover have "questions s1 = questions s @
        [\<lparr>question_id = pk,
          question_text = cleaned_question_text cd, pub_date = now,
          image_ref = cleaned_image cd, lifespan_days = cleaned_lifespan_days cd\<rparr>]"
    "choices s1 = choices s"
    by (simp_all add: s1_def pk_def Question_save_def Let_def)
  ultimately show "\<exists>s' rows. QuestionCreateForm_save now True s cd =
        Inr (Some (next_id (map question_id (questions s))), s') \<and>
      questions s' = questions s @
        [\<lparr>question_id = next_id (map question_id (questions s)),
          question_text = cleaned_question_text cd, pub_date = now,
          image_ref = cleaned_image cd, lifespan_days = cleaned_lifespan_days cd\<rparr>] \<and>
      choices s' = choices s @ rows \<and>
      map choice_text rows = filter (\<lambda>t. t \<noteq> []) [choice1 cd, choice2 cd, choice3 cd] \<and>
      map choice_question rows =
        replicate (length rows) (next_id (map question_id (questions s)))"
    using r(2,3) unfolding pk_def[symmetric]
    by (intro exI[of _ "s1\<lparr>choices := choices s1 @ rows\<rparr>"] exI[of _ rows]) simp
next
  show "choice_texts_of (snd (question_create 0 empty_db (Some 1) POST (color_post []))) 1 =
     [''Red'', ''Blue'']"
    by code_simp
next
  show "choice_texts_of (snd (question_create 0 empty_db (Some 1) POST (color_post ''  ''))) 1 =
     [''Red'', ''Blue'']"
    by code_simp
qed

section \<open>Deleting the profile, then the account\<close>

text \<open>
  C9. For a user with at most one profile row (the relation is one-to-one), a POST to the
  view succeeds with the redirect to the index and the success message. The view first
  deletes the profile of the user, which leaves the user in place and no profile of the
  user, and then deletes the user from that store. A missing profile is no error: then
  the first step changes nothing, and the account is removed all the same.
\<close>

theorem profile_delete_removes_profile_then_user:
  assumes "length (filter (\<lambda>p. profile_user p = u) (profiles s)) \<le> 1"
  shows "profile_delete s (Some u) POST =
           (Redirect Index_page (Some (Level_success, Profile_deleted)),
            User_delete (profile_deleted_first s u) u) \<and>
         filter (\<lambda>p. profile_user p = u) (profiles (profile_deleted_first s u)) = [] \<and>
         u \<in> set (users (profile_deleted_first s u)) = (u \<in> set (users s)) \<and>
         u \<notin> set (users (User_delete (profile_deleted_first s u) u)) \<and>
         filter (\<lambda>p. profile_user p = u)
           (profiles (User_delete (profile_deleted_first s u) u)) = [] \<and>
         (filter (\<lambda>p. profile_user p = u) (profiles s) = [] \<longrightarrow>
            profile_deleted_first s u = s)"
proof (cases "filter (\<lambda>p. profile_user p = u) (profiles s)")
  case Nil
  then have up: "user_profile s u = Inl DoesNotExist"
    by (simp add: user_profile_def)
  with Nil show ?thesis
    by (simp add: profile_delete_def profile_deleted_first_def User_delete_def)
next
  case (Cons p ps)
  with assms have ps: "ps = []" by simp
  with Cons have f: "filter (\<lambda>p. profile_user p = u) (profiles s) = [p]" by simp
  then have up: "user_profile s u = Inr p"
    by (simp add: user_profile_def)
  have "x \<in> set (profiles s) \<Longrightarrow> profile_user x = u \<Longrightarrow> x = p" for x
  proof -
    assume "x \<in> set (profiles s)" "profile_user x = u"
    then have "x \<in> set (filter (\<lambda>p. profile_user p = u) (profiles s))" by simp
    with f show "x = p" by simp
  qed
  then have gone: "filter (\<lambda>x. profile_user x = u)
      (filter (\<lambda>x. profile_id x \<noteq> profile_id p) (profiles s)) = []"
    by (auto simp: filter_empty_conv)
  from up gone f show ?thesis
    by (simp add: profile_delete_def profile_deleted_first_def User_delete_def
        UserProfile_delete_def filter_empty_conv)
qed

theorem profile_delete_witness:
  "length (filter (\<lambda>p. profile_user p = 1) (profiles example_db)) \<le> 1 \<and>
   filter (\<lambda>p. profile_user p = 1) (profiles example_db) = [] \<and>
   profile_delete example_db (Some 1) POST =
     (Redirect Index_page (Some (Level_success, Profile_deleted)),
      example_db\<lparr>users := [2]\<rparr>)"
proof -
  have h: "length (filter (\<lambda>p. profile_user p = 1) (profiles example_db)) \<le> 1"
    by (simp add: example_defs)
  from profile_delete_removes_profile_then_user[OF h] h show ?thesis
    by (simp add: example_defs User_delete_def)
qed

section \<open>Expired questions\<close>

lemma find_distinct_key:
  "distinct (map f xs) \<Longrightarrow> x \<in> set xs \<Longrightarrow> find (\<lambda>y. f y = f x) xs = Some x"
  by (induction xs) (auto simp: image_iff)

text \<open>
  C10. For every stored question whose lifespan has expired, the detail view and the
  results view still answer with the page of the question and leave the store as it is
  (neither view looks at the lifespan), while the vote view refuses the vote with the
  message that voting is finished. Primary keys of questions are unique.
\<close>

theorem expired_question_still_viewable:
  assumes "unique_question_ids s" and "q \<in> set (questions s)" and "is_active q now = Inr False"
  shows "DetailView_get s ruser (question_id q) = (Render_detail q (has_voted s ruser q), s) \<and>
         (\<exists>results. ResultsView_get ops s (question_id q) = (Render_results q results, s)) \<and>
         vote now fault s ruser (question_id q) pv =
           (Redirect Index_page (Some (Level_error, Voting_finished)), s)"
proof -
  from assms(1,2) have "get_question s (question_id q) = Some q"
    unfolding get_question_def unique_question_ids_def by (rule find_distinct_key)
  with assms(3) show ?thesis
    by (simp add: DetailView_get_def ResultsView_get_def get_context_data_map vote_def Let_def)
qed

theorem expired_question_still_viewable_witness:
  "unique_question_ids example_db \<and> example_question \<in> set (questions example_db) \<and>
   is_active example_question 604800000001 = Inr False \<and>
   DetailView_get example_db (Some 1) 1 = (Render_detail example_question False, example_db) \<and>
   (\<exists>results.
      ResultsView_get symbolic_ops example_db 1 =
      (Render_results example_question results, example_db)) \<and>
   vote 604800000001 None example_db (Some 1) 1 (Number 1) =
     (Redirect Index_page (Some (Level_error, Voting_finished)), example_db)"
proof -
  have h1: "unique_question_ids example_db"
    by (simp add: unique_question_ids_def example_defs)
  have h2: "example_question \<in> set (questions example_db)"
    by (simp add: example_defs)
  have h3: "is_active example_question 604800000001 = Inr False"
    by (simp add: is_active_eval example_defs)
  have id: "question_id example_question = 1" by (simp add: example_defs)
  have hv: "has_voted example_db (Some 1) example_question = False"
    by (simp add: has_voted_def example_defs)
  from expired_question_still_viewable[OF h1 h2 h3, of "Some 1" symbolic_ops None "Number 1"]
    h1 h2 h3 id hv
  show ?thesis by simp
qed

end
